theory Spec2Isabelle
  imports Main
begin

section \<open>The account module of the browser calling client\<close>

text \<open>
  A shallow embedding of the class \<open>Account\<close>: the handlers it registers on the SIP
  user agent (\<open>disconnected\<close>, \<open>registered\<close>, \<open>unregistered\<close>,
  \<open>registrationFailed\<close>, \<open>newRTCSession\<close>), the login validation, the
  endpoint selection of \<open>setupUAConfig\<close> and the address-resolution retry of
  \<open>tiggerNetworkChangeEvent\<close>.

  Every handler takes the account (which holds the client object \<open>cs\<close> it mutates) and
  returns the account after the handler has run, together with the list of calls it made
  to its collaborators, in program order (\<open>emit\<close> on the client, methods of the user
  agent, timers, the telemetry helpers, the queued login callback). What a collaborator
  does with such a call, and what a promise callback or a timer callback does when it runs
  later, is not part of the handler's step. Calls to the logger are left out, except
  \<open>Plivo.log.send\<close>.
\<close>

subsection \<open>Values\<close>

text \<open>A field typed \<open>string\<close> that the code also tests against \<open>undefined\<close> and \<open>null\<close>.\<close>

datatype jsstring = Undefined | Null | Str string

text \<open>
  A JavaScript number, as far as this module computes one: an integer that a double holds
  exactly, \<open>NaN\<close>, or a number that this model does not evaluate.
\<close>

datatype jsnum = Num int | NaN | Unevaluated

datatype js_error = TypeError

text \<open>\<open>ConnectionState\<close>, and the empty string the client starts with.\<close>

datatype conn_state = Empty_state | CONNECTED | DISCONNECTED

record connectionInfo =
  state :: conn_state
  reason :: string

text \<open>
  The primary call session \<open>cs._currentSession\<close>: its call identifier and, when
  \<open>session.connection\<close> is set, the \<open>signalingState\<close> of that peer connection.
\<close>

record callSession =
  session_callUUID :: "string option"
  connection :: "string option"

text \<open>An entry of \<open>cs.incomingInvites\<close>: \<open>invite.callUUID\<close> and \<open>invite.session.isEnded()\<close>.\<close>

record invite =
  callUUID :: string
  isEnded :: bool

text \<open>\<open>options.registrationDomainSocket\<close>: unset, a comma-separated string, or an array.\<close>

datatype domain_socket = Unset | Socket_string string | Socket_list "string list"

type_synonym callback = nat

record client =
  currentSession :: "callSession option"
  callSession_ref :: "nat option"
  client_callUUID :: "string option"
  callDirection :: "string option"
  incomingInvites :: "(string \<times> invite) list"
  allowMultipleIncomingCalls :: bool
  registrationDomainSocket :: domain_socket
  isCallMuted :: bool
  loginCallback :: "callback option"
  connectionInfo :: connectionInfo
  phone :: bool
  plivoSocket :: "string option"
  isLoggedIn :: bool
  isLoginCalled :: bool
  isLogoutCalled :: bool
  isAccessToken :: bool
  isAccessTokenGenerator :: bool
  userName :: jsstring
  password :: jsstring
  accessToken :: "string option"
  networkChangeInterval :: "nat option"
  statsSocket :: bool
  noiseSuppresion :: bool
  networkReconnectionTimestamp :: int
  networkDisconnectedTimestamp :: int
  ringToneView :: "bool option"
  ringBackToneView :: "bool option"
  mediaSetup_init :: "int option"

text \<open>
  The fields of \<open>Account\<close>, and the module-level variable \<open>urlIndex\<close> (the endpoint
  cursor), which every instance reads and writes.
\<close>

record account =
  cs :: client
  isPlivoSocketConnected :: bool
  message :: "nat option"
  registerRefreshTimer :: nat
  credentials_userName :: jsstring
  credentials_password :: jsstring
  accessTokenCredentials :: "string option"
  fetchIpCount :: nat
  reinviteCounter :: nat
  urlIndex :: nat

text \<open>
  The parameters of the model: the constants of \<open>../constants\<close> that the module reads
  and, with them, the one fact about the SIP library that the module depends on, the
  arguments that the constructor \<open>SipLib.WebSocketInterface\<close> accepts as a URL (it
  throws on every other string, and on \<open>undefined\<close>).
\<close>

record constants =
  WS_SERVERS :: "string list"
  WebSocketInterface_accepts :: "string \<Rightarrow> bool"
  NUMBER_OF_SIMULTANEOUS_INCOMING_CALLS_ALLOWED :: nat
  IP_ADDRESS_FETCH_RETRY_COUNT :: nat
  NETWORK_CHANGE_INTERVAL_ON_CALL_STATE :: nat
  NETWORK_CHANGE_INTERVAL_IDLE_STATE :: nat
  MESSAGE_CHECK_TIMEOUT_ON_CALL_STATE :: nat

text \<open>The configuration object that \<open>setupUAConfig\<close> returns (its varying fields).\<close>

record sipConfig =
  sockets :: "string option"
  register_expires :: nat
  uri_user :: jsstring
  config_password :: jsstring
  token :: "string option"

datatype originator = Local | Remote

text \<open>What the code passes to \<open>cs.emit('onLoginFailed', ...)\<close> on a registration failure.\<close>

datatype failure_text =
    Cause string
  | RELOGIN_FAILED_INVALID_TOKEN
  | ErrorStringByErrorCode "int option"

datatype effect =
    Emit_onLoginFailed string
  | Emit_onLoginFailed_registration failure_text
  | Emit_onConnectionChange connectionInfo
  | Emit_onLogin
  | Emit_onLogout
  | Phone_stop
  | Phone_createNewUATransport sipConfig
  | Phone_start
  | Invoke_loginCallback callback
  | SocketReconnectionRetry
  | Session_replaceUA
  | SetTimeout_sendReinvite nat
  | SetTimeout_tiggerNetworkChangeEvent nat
  | FetchIPAddress
  | SendNetworkChangeEvent string
  | StartSpeechRecognition
  | SetExpiryTimeInEpoch jsnum
  | ClearInterval_networkChange
  | StartPingPong nat nat
  | StatsSocket_disconnect
  | StatsSocket_connect
  | New_NoiseSuppression
  | ValidateCallStats jsstring jsstring bool
  | InitCallStatsIO
  | Log_send
  | StopAudio_ringtone
  | StopAudio_ringback
  | ClearOnLogout
  | SetSipCallID string
  | CreateStatsSocket
  | Session_terminate nat string
  | AddMidAttribute
  | CreateIncomingSession
  | CreateOutgoingSession

subsection \<open>Strings and numbers of the host language\<close>

text \<open>\<open>s.split(c)\<close> for a one-character separator: never the empty array.\<close>

fun split_on :: "char \<Rightarrow> string \<Rightarrow> string list" where
  "split_on c [] = [[]]"
| "split_on c (x # xs) =
     (if x = c then [] # split_on c xs
      else (case split_on c xs of
              [] \<Rightarrow> [[x]]
            | w # ws \<Rightarrow> (x # w) # ws))"

text \<open>\<open>xs[i]\<close> of an array: \<open>undefined\<close> (here \<open>None\<close>) out of range.\<close>

fun index :: "'a list \<Rightarrow> nat \<Rightarrow> 'a option" where
  "index [] i = None"
| "index (x # xs) 0 = Some x"
| "index (x # xs) (Suc i) = index xs i"

definition digit_char :: "nat \<Rightarrow> char" where
  "digit_char d = char_of (48 + d)"

text \<open>\<open>n.toString()\<close> of a non-negative integer.\<close>

function toString :: "nat \<Rightarrow> string" where
  "toString n = (if n < 10 then [digit_char n] else toString (n div 10) @ [digit_char (n mod 10)])"
  by pat_completeness auto
termination
  by (relation "measure id") auto

definition is_digit :: "char \<Rightarrow> bool" where
  "is_digit c = (48 \<le> (of_char c :: nat) \<and> (of_char c :: nat) \<le> 57)"

text \<open>
  A string is a sequence of code units below 256. The white space among them: tab, line
  feed, vertical tab, form feed, carriage return, space and the no-break space.
\<close>

definition is_white_space :: "char \<Rightarrow> bool" where
  "is_white_space c = ((of_char c :: nat) \<in> {9, 10, 11, 12, 13, 32, 160})"

definition trim :: "string \<Rightarrow> string" where
  "trim s = rev (dropWhile is_white_space (rev (dropWhile is_white_space s)))"

definition decimal_value :: "string \<Rightarrow> nat" where
  "decimal_value s = foldl (\<lambda>acc c. acc * 10 + ((of_char c :: nat) - 48)) 0 s"

text \<open>
  The conversion of a string or \<open>undefined\<close> to a number that \<open>*\<close> applies to its
  operand. \<open>undefined\<close> gives \<open>NaN\<close>, white space alone gives 0, a run of decimal
  digits gives its value (exact up to \<open>2^53\<close>). Every other string (a sign, a fraction,
  an exponent, a radix prefix, text that is no number) is left unevaluated.
\<close>

definition ToNumber :: "string option \<Rightarrow> jsnum" where
  "ToNumber v =
     (case v of
        None \<Rightarrow> NaN
      | Some s \<Rightarrow>
          (let t = trim s in
           if t = [] then Num 0
           else if list_all is_digit t \<and> decimal_value t \<le> 2 ^ 53 then Num (int (decimal_value t))
           else Unevaluated))"

definition times_1000 :: "jsnum \<Rightarrow> jsnum" where
  "times_1000 x =
     (case x of
        Num n \<Rightarrow> if \<bar>n\<bar> * 1000 \<le> 2 ^ 53 then Num (n * 1000) else Unevaluated
      | NaN \<Rightarrow> NaN
      | Unevaluated \<Rightarrow> Unevaluated)"

text \<open>
  \<open>parseInt(s, 10)\<close>: leading white space, an optional sign, then the longest run of
  digits; \<open>None\<close> is \<open>NaN\<close>.
\<close>

definition parseInt10 :: "string \<Rightarrow> int option" where
  "parseInt10 s =
     (let t = dropWhile is_white_space s;
          neg = (case t of [] \<Rightarrow> False | c # _ \<Rightarrow> c = CHR ''-'');
          u = (case t of [] \<Rightarrow> [] | c # r \<Rightarrow> if c = CHR ''-'' \<or> c = CHR ''+'' then r else t);
          ds = takeWhile is_digit u
      in if ds = [] then None
         else Some (if neg then - int (decimal_value ds) else int (decimal_value ds)))"

subsection \<open>Construction and login validation\<close>

text \<open>
  The constructor. It does not touch the module-level cursor; the last argument is the
  value the cursor has when the account is made.
\<close>

definition new_Account :: "client \<Rightarrow> jsstring \<Rightarrow> jsstring \<Rightarrow> string option \<Rightarrow> nat \<Rightarrow> nat \<Rightarrow> account" where
  "new_Account clientObject user pass accessTok registerRefreshtimer cursor =
     \<lparr> cs = clientObject,
       isPlivoSocketConnected = False,
       message = None,
       registerRefreshTimer = registerRefreshtimer,
       credentials_userName = user,
       credentials_password = pass,
       accessTokenCredentials = accessTok,
       fetchIpCount = 0,
       reinviteCounter = 0,
       urlIndex = cursor \<rparr>"

text \<open>
  The first condition of \<open>_validate\<close>, with \<open>||\<close> and \<open>&&\<close> evaluated left to right.
  With a user name that is a non-empty string and the password \<open>null\<close> the last operand
  reads \<open>.length\<close> of \<open>null\<close>, which throws.
\<close>

definition credentials_rejected :: "jsstring \<Rightarrow> jsstring \<Rightarrow> js_error + bool" where
  "credentials_rejected user pass =
     (if user = Undefined then Inr True
      else if pass = Undefined then Inr True
      else if user = Null then Inr True
      else if pass = Null then
        (case user of
           Str u \<Rightarrow> if length u \<le> 0 then Inr True else Inl TypeError
         | _ \<Rightarrow> Inr True)
      else Inr False)"

datatype validation = Returns_false | Returns_true | Returns_callback callback

text \<open>\<open>_validate(callback)\<close>; \<open>onLine\<close> is \<open>navigator.onLine\<close>.\<close>

definition validate :: "callback \<Rightarrow> bool \<Rightarrow> account \<Rightarrow> js_error + (validation \<times> effect list \<times> account)" where
  "validate cb onLine a =
     (case credentials_rejected (credentials_userName a) (credentials_password a) of
        Inl e \<Rightarrow> Inl e
      | Inr True \<Rightarrow>
          Inr (Returns_false, [Emit_onLoginFailed ''Username and password must be filled out''], a)
      | Inr False \<Rightarrow>
          if currentSession (cs a) \<noteq> None then
            Inr (Returns_false, [Emit_onLoginFailed ''Cannot login when there is an ongoing call''], a)
          else if \<not> onLine then
            Inr (Returns_false, [Emit_onLoginFailed ''Cannot login when there is no internet''], a)
          else if phone (cs a) then
            Inr (Returns_callback cb, [Phone_stop],
                 a\<lparr>cs := (cs a)\<lparr>loginCallback := Some cb,
                                 connectionInfo := \<lparr>state = DISCONNECTED, reason = ''Relogin''\<rparr>\<rparr>\<rparr>)
          else Inr (Returns_true, [], a))"

subsection \<open>Endpoint selection and the disconnected handler\<close>

text \<open>
  The endpoint list of \<open>setupUAConfig\<close>: \<open>C.WS_SERVERS\<close> unless the option is set
  (the empty string counts as unset, the empty array does not). The function resets the
  cursor to 0 when it is past the end of the list, and hands the endpoint under the
  cursor (\<open>undefined\<close> for the empty list) to the socket constructor of the SIP library.
  When the constructor throws, \<open>cs.plivoSocket\<close> is left \<open>null\<close>, as the first
  statement set it, and no configuration is returned.
\<close>

definition wsServers :: "constants \<Rightarrow> client \<Rightarrow> string list" where
  "wsServers C c =
     (case registrationDomainSocket c of
        Unset \<Rightarrow> WS_SERVERS C
      | Socket_string s \<Rightarrow> if s = [] then WS_SERVERS C else split_on CHR '','' s
      | Socket_list l \<Rightarrow> l)"

definition setupUAConfig :: "constants \<Rightarrow> account \<Rightarrow> (js_error + sipConfig) \<times> account" where
  "setupUAConfig C a =
     (let servers = wsServers C (cs a);
          i = (if urlIndex a \<ge> length servers then 0 else urlIndex a);
          socket = (case index servers i of
                      None \<Rightarrow> None
                    | Some url \<Rightarrow> if WebSocketInterface_accepts C url then Some url else None);
          a' = a\<lparr>urlIndex := i, cs := (cs a)\<lparr>plivoSocket := socket\<rparr>\<rparr>
      in ((case socket of
             None \<Rightarrow> Inl TypeError
           | Some url \<Rightarrow>
               Inr \<lparr> sockets = Some url,
                     register_expires = registerRefreshTimer a,
                     uri_user = credentials_userName a,
                     config_password = credentials_password a,
                     token = accessTokenCredentials a \<rparr>), a'))"

text \<open>\<open>sendReInvite\<close>: the re-INVITE itself is sent from a timer callback.\<close>

definition sendReInvite :: "account \<Rightarrow> effect list" where
  "sendReInvite a =
     (if currentSession (cs a) \<noteq> None \<and> phone (cs a)
      then [Session_replaceUA, SetTimeout_sendReinvite 0] else [])"

text \<open>
  The \<open>disconnected\<close> event: \<open>code\<close> is optional, and \<open>ignoreReconnection\<close> is read
  as a truth value.
\<close>

record disconnectedEvent =
  code :: "nat option"
  ignoreReconnection :: bool

text \<open>
  \<open>_onDisconnected\<close>. The first component is the exception the handler ends with, if
  any: the one of the socket constructor in \<open>setupUAConfig\<close>, or the one of
  \<open>cs.phone!.createNewUATransport\<close> on a client without a user agent.
\<close>

definition onDisconnected :: "constants \<Rightarrow> disconnectedEvent \<Rightarrow> account \<Rightarrow> js_error option \<times> effect list \<times> account" where
  "onDisconnected C evt a =
     (let c0 = cs a;
          c1 = (case code evt of
                  None \<Rightarrow> c0
                | Some n \<Rightarrow>
                    if n = 0 then c0
                    else c0\<lparr>connectionInfo := \<lparr>state = DISCONNECTED, reason = toString n\<rparr>\<rparr>);
          e1 = (case loginCallback c1 of None \<Rightarrow> [] | Some cb \<Rightarrow> [Invoke_loginCallback cb]);
          c2 = c1\<lparr>loginCallback := None\<rparr>;
          a2 = a\<lparr>cs := c2, isPlivoSocketConnected := False\<rparr>
      in if ignoreReconnection evt then (None, e1, a2)
         else
           (let (made, a3) = setupUAConfig C (a2\<lparr>urlIndex := urlIndex a2 + 1\<rparr>)
            in (case made of
                  Inl thrown \<Rightarrow> (Some thrown, e1 @ [SocketReconnectionRetry], a3)
                | Inr config \<Rightarrow>
                    if phone (cs a3)
                    then (None,
                          e1 @ [SocketReconnectionRetry, Phone_createNewUATransport config, Phone_start]
                             @ sendReInvite a3, a3)
                    else (Some TypeError, e1 @ [SocketReconnectionRetry], a3))))"

subsection \<open>The network-change telemetry trigger\<close>

text \<open>How the promise of \<open>fetchIPAddress\<close> ends: resolved with \<open>json.ip\<close> (a string, or
  something else when the reply has no such field), rejected, or never settled.\<close>

datatype ip_outcome = Resolved_string string | Resolved_other | Rejected | Unsettled

text \<open>The synchronous part of \<open>tiggerNetworkChangeEvent\<close>.\<close>

definition tiggerNetworkChangeEvent :: "account \<Rightarrow> effect list \<times> account" where
  "tiggerNetworkChangeEvent a = ([FetchIPAddress], a\<lparr>fetchIpCount := fetchIpCount a + 1\<rparr>)"

text \<open>
  The \<open>then\<close> callback, which runs only when the promise is resolved. The last component
  is the delay in milliseconds of the timer that activates the trigger again, if one is
  set.
\<close>

definition tiggerNetworkChangeEvent_then :: "constants \<Rightarrow> ip_outcome \<Rightarrow> account \<Rightarrow> effect list \<times> account \<times> nat option" where
  "tiggerNetworkChangeEvent_then C outcome a =
     (case outcome of
        Resolved_string ipAddress \<Rightarrow> ([SendNetworkChangeEvent ipAddress], a, None)
      | Resolved_other \<Rightarrow>
          if fetchIpCount a \<noteq> IP_ADDRESS_FETCH_RETRY_COUNT C
          then ([SetTimeout_tiggerNetworkChangeEvent (fetchIpCount a * 200)], a, Some (fetchIpCount a * 200))
          else ([], a\<lparr>fetchIpCount := 0\<rparr>, None)
      | Rejected \<Rightarrow> ([], a, None)
      | Unsettled \<Rightarrow> ([], a, None))"

text \<open>One activation: the call, then the end of its promise.\<close>

definition activation :: "constants \<Rightarrow> ip_outcome \<Rightarrow> account \<Rightarrow> effect list \<times> account \<times> nat option" where
  "activation C outcome a =
     (let (e1, a1) = tiggerNetworkChangeEvent a;
          (e2, a2, timer) = tiggerNetworkChangeEvent_then C outcome a1
      in (e1 @ e2, a2, timer))"

text \<open>
  One trigger and the activations its timers cause, with the outcomes of the successive
  address resolutions given in order. The chain stops when an activation sets no timer;
  when the outcomes run out, the next resolution is still pending.
\<close>

fun trigger_chain :: "constants \<Rightarrow> ip_outcome list \<Rightarrow> account \<Rightarrow> effect list \<times> account" where
  "trigger_chain C [] a = tiggerNetworkChangeEvent a"
| "trigger_chain C (outcome # rest) a =
     (case activation C outcome a of
        (e, a', None) \<Rightarrow> (e, a')
      | (e, a', Some delay) \<Rightarrow> (let (e', a'') = trigger_chain C rest a' in (e @ e', a'')))"

text \<open>Several triggers one after the other, each with the outcomes of its own chain.\<close>

fun triggers :: "constants \<Rightarrow> ip_outcome list list \<Rightarrow> account \<Rightarrow> effect list \<times> account" where
  "triggers C [] a = ([], a)"
| "triggers C (outcomes # rest) a =
     (let (e, a') = trigger_chain C outcomes a;
          (e', a'') = triggers C rest a'
      in (e @ e', a''))"

subsection \<open>The registered handler\<close>

text \<open>
  The value the handler reads from the raw text of the token header:
  \<open>raw.split(";")[0].split("=")[1]\<close>, \<open>undefined\<close> when the first segment has no
  \<open>=\<close>; and the product \<open>expiryTimeInEpoch * 1000\<close> it stores.
\<close>

definition expiryTimeInEpoch :: "string \<Rightarrow> string option" where
  "expiryTimeInEpoch raw =
     (case split_on CHR '';'' raw of
        [] \<Rightarrow> None
      | segment # _ \<Rightarrow> index (split_on CHR ''='' segment) 1)"

text \<open>
  The same value in the words of the specification: the first \<open>;\<close>-delimited segment
  of the raw text, and in a segment the value of its \<open>key=value\<close> pair, which is the text
  after the first \<open>=\<close> up to the next \<open>=\<close> or the end of the segment (no value when
  the segment has no \<open>=\<close>).
\<close>

definition first_segment :: "string \<Rightarrow> string" where
  "first_segment raw = takeWhile (\<lambda>c. c \<noteq> CHR '';'') raw"

definition value_of_pair :: "string \<Rightarrow> string option" where
  "value_of_pair segment =
     (if CHR ''='' \<in> set segment
      then Some (takeWhile (\<lambda>c. c \<noteq> CHR ''='') (tl (dropWhile (\<lambda>c. c \<noteq> CHR ''='') segment)))
      else None)"

definition jwt_expiry :: "string \<Rightarrow> jsnum" where
  "jwt_expiry raw = times_1000 (ToNumber (expiryTimeInEpoch raw))"

text \<open>
  The response of the \<open>registered\<close> event: \<open>headers['X-Plivo-Jwt'][0].raw\<close> when the
  header is present. (The SIP library keeps a present header as a non-empty array.)
\<close>

record registeredEvent =
  X_Plivo_Jwt :: "string option"

text \<open>The end of \<open>_onRegistered\<close>, from \<open>if (!this.cs.isLoginCalled)\<close> on.\<close>

definition onRegistered_login :: "constants \<Rightarrow> account \<Rightarrow> effect list \<times> account" where
  "onRegistered_login C a =
     (let c0 = cs a;
          c1 = (if \<not> isLoginCalled c0 then c0\<lparr>isLoggedIn := True\<rparr> else c0);
          c2 = c1\<lparr>userName := credentials_userName a, password := credentials_password a\<rparr>
      in if isLoggedIn c2 = False \<and> isLoginCalled c2 = True then
           (let c3 = c2\<lparr>isLoggedIn := True, isLoginCalled := False, noiseSuppresion := True\<rparr>;
                passToken = (if isAccessToken c3
                             then (case accessToken c3 of None \<Rightarrow> Null | Some t \<Rightarrow> Str t)
                             else password c3)
            in ([New_NoiseSuppression, Emit_onLogin,
                 StartPingPong (NETWORK_CHANGE_INTERVAL_IDLE_STATE C) (MESSAGE_CHECK_TIMEOUT_ON_CALL_STATE C),
                 ValidateCallStats (userName c3) passToken (isAccessToken c3),
                 InitCallStatsIO, Log_send],
                a\<lparr>cs := c3\<rparr>))
         else ([], a\<lparr>cs := c2\<rparr>))"

text \<open>\<open>_onRegistered(res)\<close>; \<open>now\<close> is \<open>new Date().getTime()\<close>.\<close>

definition onRegistered :: "constants \<Rightarrow> int \<Rightarrow> registeredEvent \<Rightarrow> account \<Rightarrow> effect list \<times> account" where
  "onRegistered C now res a =
     (let c0 = cs a;
          e1 = (if currentSession c0 \<noteq> None \<and> isCallMuted c0 then [StartSpeechRecognition] else []);
          info = \<lparr>state = CONNECTED, reason = ''registered''\<rparr>;
          c1 = c0\<lparr>loginCallback := None, connectionInfo := info\<rparr>;
          e2 = [Emit_onConnectionChange info];
          e3 = (case X_Plivo_Jwt res of
                  None \<Rightarrow> []
                | Some raw \<Rightarrow> if isAccessToken c1 then [SetExpiryTimeInEpoch (jwt_expiry raw)] else [])
      in if \<not> isLoggedIn c1 \<and> \<not> isLoginCalled c1 then
           (let c2 = c1\<lparr>networkChangeInterval := None\<rparr>;
                e4 = [ClearInterval_networkChange,
                      StartPingPong
                        (if currentSession c2 \<noteq> None then NETWORK_CHANGE_INTERVAL_ON_CALL_STATE C
                         else NETWORK_CHANGE_INTERVAL_IDLE_STATE C)
                        (MESSAGE_CHECK_TIMEOUT_ON_CALL_STATE C)]
            in if currentSession c2 = None then
                 (e1 @ e2 @ e3 @ e4 @ [FetchIPAddress], a\<lparr>cs := c2\<lparr>isLoggedIn := True\<rparr>\<rparr>)
               else
                 (let e5 = (if statsSocket c2 then [StatsSocket_disconnect] else []) @ [StatsSocket_connect];
                      c3 = c2\<lparr>statsSocket := True, networkReconnectionTimestamp := now\<rparr>;
                      (e6, a6) = tiggerNetworkChangeEvent (a\<lparr>cs := c3\<rparr>);
                      (e7, a7) = onRegistered_login C a6
                  in (e1 @ e2 @ e3 @ e4 @ e5 @ e6 @ e7, a7)))
         else
           (let (e7, a7) = onRegistered_login C (a\<lparr>cs := c1\<rparr>)
            in (e1 @ e2 @ e3 @ e7, a7)))"

subsection \<open>The unregistered and registrationFailed handlers\<close>

text \<open>\<open>view && !view.paused\<close> for an audio element that may be absent.\<close>

definition playing :: "bool option \<Rightarrow> bool" where
  "playing view = (case view of None \<Rightarrow> False | Some paused \<Rightarrow> \<not> paused)"

definition onUnRegistered :: "int \<Rightarrow> account \<Rightarrow> effect list \<times> account" where
  "onUnRegistered now a =
     (let c0 = (cs a)\<lparr>isLoggedIn := False\<rparr>;
          c1 = (if state (connectionInfo c0) = Empty_state \<or> state (connectionInfo c0) = CONNECTED
                then c0\<lparr>connectionInfo := \<lparr>state = DISCONNECTED, reason = ''unregistered''\<rparr>\<rparr>
                else c0);
          e1 = [Emit_onConnectionChange (connectionInfo c1)]
      in if \<not> isLogoutCalled c1 then (e1, a\<lparr>cs := c1\<rparr>)
         else
           (let e2 = (if playing (ringToneView c1) then [StopAudio_ringtone] else [])
                     @ (if playing (ringBackToneView c1) then [StopAudio_ringback] else []);
                c2 = c1\<lparr>networkDisconnectedTimestamp := now, userName := Null, password := Null\<rparr>;
                e3 = [Emit_onLogout];
                e4 = (if networkChangeInterval c2 \<noteq> None then [ClearInterval_networkChange] else []);
                c3 = c2\<lparr>networkChangeInterval := None\<rparr>;
                c4 = c3\<lparr>isLogoutCalled := False\<rparr>
            in (e1 @ e2 @ e3 @ e4 @ [ClearOnLogout, Log_send], a\<lparr>cs := c4, message := None\<rparr>)))"

text \<open>
  The argument of the \<open>registrationFailed\<close> event: \<open>cause\<close>, and of \<open>response\<close> (which
  may be absent) the raw text of the header \<open>X-Plivo-Jwt-Error-Code\<close>, if present.
\<close>

record registrationFailedEvent =
  cause :: "string option"
  response :: "string option option"

definition errorCode :: "registrationFailedEvent \<Rightarrow> int option" where
  "errorCode error =
     (case response error of
        None \<Rightarrow> Some 401
      | Some None \<Rightarrow> Some 401
      | Some (Some raw) \<Rightarrow> parseInt10 raw)"

definition onRegistrationFailed :: "registrationFailedEvent \<Rightarrow> account \<Rightarrow> effect list \<times> account" where
  "onRegistrationFailed error a =
     (let c0 = cs a
      in if state (connectionInfo c0) = DISCONNECTED \<and> isLoggedIn c0 then ([], a)
         else
           (let c1 = c0\<lparr>isLoggedIn := False, userName := Null, password := Null\<rparr>;
                otherwise =
                  ([ClearInterval_networkChange,
                    Emit_onLoginFailed_registration
                      (if isAccessTokenGenerator c1 then RELOGIN_FAILED_INVALID_TOKEN
                       else ErrorStringByErrorCode (errorCode error))],
                   a\<lparr>cs := c1\<lparr>networkChangeInterval := None\<rparr>\<rparr>)
            in (case cause error of
                  None \<Rightarrow> otherwise
                | Some text \<Rightarrow>
                    if text \<noteq> [] \<and> errorCode error = Some 401
                    then ([Emit_onLoginFailed_registration (Cause text)], a\<lparr>cs := c1\<rparr>)
                    else otherwise)))"

subsection \<open>Admission of a new RTC session\<close>

text \<open>\<open>incomingInvites.delete(key)\<close> on the entries of the map, kept in insertion order.\<close>

definition delete_invite :: "string \<Rightarrow> (string \<times> invite) list \<Rightarrow> (string \<times> invite) list" where
  "delete_invite key m = filter (\<lambda>(k, v). k \<noteq> key) m"

text \<open>
  The \<open>forEach\<close> over the map, whose callback deletes from the map it walks:
  \<open>visited\<close> are the entries already seen and still present, the second list those still
  to come. An entry deleted before its turn is not visited. The callback deletes the key
  \<open>invite.callUUID\<close>, which need not be the key the entry is stored under.
\<close>

function forEach_delete_ended :: "(string \<times> invite) list \<Rightarrow> (string \<times> invite) list \<Rightarrow> (string \<times> invite) list" where
  "forEach_delete_ended visited [] = visited"
| "forEach_delete_ended visited ((k, invite) # rest) =
     (if isEnded invite
      then forEach_delete_ended (delete_invite (callUUID invite) (visited @ [(k, invite)]))
             (delete_invite (callUUID invite) rest)
      else forEach_delete_ended (visited @ [(k, invite)]) rest)"
  by pat_completeness auto
termination
  by (relation "measure (\<lambda>(visited, rest). length rest)")
     (auto simp: delete_invite_def less_Suc_eq_le)

text \<open>The first two statements of \<open>_validateRTCSession\<close>.\<close>

definition stale :: "client \<Rightarrow> bool" where
  "stale c =
     (case currentSession c of
        None \<Rightarrow> False
      | Some s \<Rightarrow> connection s = Some ''closed'')"

definition clear_stale_session :: "client \<Rightarrow> client" where
  "clear_stale_session c =
     (if stale c
      then c\<lparr>currentSession := None, callSession_ref := None,
             client_callUUID := None, callDirection := None\<rparr>
      else c)"

definition purge_ended_invites :: "client \<Rightarrow> client" where
  "purge_ended_invites c =
     (if length (incomingInvites c) \<noteq> 0
      then c\<lparr>incomingInvites := forEach_delete_ended [] (incomingInvites c)\<rparr>
      else c)"

text \<open>The condition under which the session is answered with a busy response.\<close>

definition busy :: "constants \<Rightarrow> client \<Rightarrow> bool" where
  "busy C c =
     (((currentSession c \<noteq> None \<or> length (incomingInvites c) \<noteq> 0)
         \<and> \<not> allowMultipleIncomingCalls c)
      \<or> length (incomingInvites c) \<ge> NUMBER_OF_SIMULTANEOUS_INCOMING_CALLS_ALLOWED C)"

definition validateRTCSession :: "constants \<Rightarrow> account \<Rightarrow> bool \<times> effect list \<times> account" where
  "validateRTCSession C a =
     (let c = purge_ended_invites (clear_stale_session (cs a))
      in if busy C c
         then (False, [SetSipCallID [], Session_terminate 486 ''Busy Here''], a\<lparr>cs := c\<rparr>)
         else (True, [], a\<lparr>cs := c\<rparr>))"

text \<open>The \<open>newRTCSession\<close> event: the originator and the Call-ID of the request.\<close>

record newRTCSessionEvent =
  originator :: originator
  call_id :: string

definition onNewRTCSession :: "constants \<Rightarrow> int \<Rightarrow> newRTCSessionEvent \<Rightarrow> account \<Rightarrow> effect list \<times> account" where
  "onNewRTCSession C now evt a =
     (let e1 = (if originator evt = Local then [SetSipCallID (call_id evt)] else []) @ [CreateStatsSocket];
          (ok, e2, a2) = validateRTCSession C a
      in if \<not> ok then (e1 @ e2, a2)
         else
           (e1 @ e2 @
              (if originator evt = Remote then [AddMidAttribute, CreateIncomingSession]
               else [CreateOutgoingSession]),
            a2\<lparr>cs := (cs a2)\<lparr>mediaSetup_init := Some now\<rparr>\<rparr>))"

subsection \<open>Sequences of events\<close>






subsection \<open>Observations on a list of effects\<close>

definition is_onConnectionChange :: "effect \<Rightarrow> bool" where
  "is_onConnectionChange e = (case e of Emit_onConnectionChange _ \<Rightarrow> True | _ \<Rightarrow> False)"

definition is_onLoginFailed :: "effect \<Rightarrow> bool" where
  "is_onLoginFailed e =
     (case e of
        Emit_onLoginFailed _ \<Rightarrow> True
      | Emit_onLoginFailed_registration _ \<Rightarrow> True
      | _ \<Rightarrow> False)"

definition creates_session :: "effect \<Rightarrow> bool" where
  "creates_session e = (e = CreateIncomingSession \<or> e = CreateOutgoingSession)"

definition is_loginCallback_call :: "effect \<Rightarrow> bool" where
  "is_loginCallback_call e = (case e of Invoke_loginCallback _ \<Rightarrow> True | _ \<Rightarrow> False)"

definition is_setExpiry :: "effect \<Rightarrow> bool" where
  "is_setExpiry e = (case e of SetExpiryTimeInEpoch _ \<Rightarrow> True | _ \<Rightarrow> False)"


subsection \<open>The admission rule in the words of the specification\<close>

text \<open>
  The map of pending invites as the rest of the client fills it: every invite stored
  under its own call identifier, no identifier twice.
\<close>

definition invites_wf :: "(string \<times> invite) list \<Rightarrow> bool" where
  "invites_wf m = (list_all (\<lambda>(k, v). k = callUUID v) m \<and> distinct (map fst m))"

text \<open>The invites whose session has not ended, and a primary session whose connection
  is not closed: what is left once the stale entries are gone.\<close>

definition pending_invites :: "client \<Rightarrow> (string \<times> invite) list" where
  "pending_invites c = filter (\<lambda>(k, v). \<not> isEnded v) (incomingInvites c)"

definition primary_session_exists :: "client \<Rightarrow> bool" where
  "primary_session_exists c = (currentSession c \<noteq> None \<and> \<not> stale c)"

text \<open>
  The rule of the specification: reject when (a primary session or any pending invite
  exists) and multiplexing is disabled, or when the number of pending invites is at or
  above the ceiling.
\<close>

definition must_reject :: "constants \<Rightarrow> client \<Rightarrow> bool" where
  "must_reject C c =
     (((primary_session_exists c \<or> pending_invites c \<noteq> []) \<and> \<not> allowMultipleIncomingCalls c)
      \<or> NUMBER_OF_SIMULTANEOUS_INCOMING_CALLS_ALLOWED C \<le> length (pending_invites c))"

subsection \<open>Concrete inputs\<close>

definition example_constants :: constants where
  "example_constants =
     \<lparr> WS_SERVERS = [''w0'', ''w1'', ''w2''],
       WebSocketInterface_accepts = (\<lambda>url. url \<noteq> []),
       NUMBER_OF_SIMULTANEOUS_INCOMING_CALLS_ALLOWED = 2,
       IP_ADDRESS_FETCH_RETRY_COUNT = 5,
       NETWORK_CHANGE_INTERVAL_ON_CALL_STATE = 10000,
       NETWORK_CHANGE_INTERVAL_IDLE_STATE = 30000,
       MESSAGE_CHECK_TIMEOUT_ON_CALL_STATE = 5000 \<rparr>"

text \<open>A client with no call, no user agent and nobody logged in.\<close>

definition example_client :: client where
  "example_client =
     \<lparr> currentSession = None, callSession_ref = None, client_callUUID = None,
       callDirection = None, incomingInvites = [], allowMultipleIncomingCalls = False,
       registrationDomainSocket = Unset, isCallMuted = False, loginCallback = None,
       connectionInfo = \<lparr>state = Empty_state, reason = []\<rparr>, phone = False,
       plivoSocket = None, isLoggedIn = False, isLoginCalled = False,
       isLogoutCalled = False, isAccessToken = False, isAccessTokenGenerator = False,
       userName = Null, password = Null, accessToken = None,
       networkChangeInterval = None, statsSocket = False, noiseSuppresion = False,
       networkReconnectionTimestamp = 0, networkDisconnectedTimestamp = 0,
       ringToneView = None, ringBackToneView = None, mediaSetup_init = None \<rparr>"

definition example_account :: account where
  "example_account = new_Account example_client (Str ''alice'') (Str ''secret'') None 120 0"

text \<open>The same client, logged in, after its transport was closed with code 1006.\<close>

definition disconnected_account :: account where
  "disconnected_account =
     example_account\<lparr>cs := example_client
       \<lparr>isLoggedIn := True, phone := True, networkChangeInterval := Some 1,
        userName := Str ''alice'', password := Str ''secret'',
        connectionInfo := \<lparr>state = DISCONNECTED, reason = ''1006''\<rparr>\<rparr>\<rparr>"

text \<open>The same client, logged in and registered.\<close>

definition connected_account :: account where
  "connected_account =
     example_account\<lparr>cs := example_client
       \<lparr>isLoggedIn := True, phone := True, networkChangeInterval := Some 1,
        userName := Str ''alice'', password := Str ''secret'',
        connectionInfo := \<lparr>state = CONNECTED, reason = ''registered''\<rparr>\<rparr>\<rparr>"

text \<open>On a call whose peer connection is open.\<close>

definition on_call_account :: account where
  "on_call_account =
     connected_account\<lparr>cs := (cs connected_account)
       \<lparr>currentSession := Some \<lparr>session_callUUID = Some ''c1'', connection = Some ''stable''\<rparr>,
        callSession_ref := Some 1, client_callUUID := Some ''c1'',
        callDirection := Some ''outgoing''\<rparr>\<rparr>"

text \<open>After a call that was not torn down: the peer connection of the primary session
  is closed, and an invite whose session has ended is still in the map.\<close>

definition stale_call_account :: account where
  "stale_call_account =
     connected_account\<lparr>cs := (cs connected_account)
       \<lparr>currentSession := Some \<lparr>session_callUUID = Some ''c1'', connection = Some ''closed''\<rparr>,
        callSession_ref := Some 1, client_callUUID := Some ''c1'',
        callDirection := Some ''outgoing'',
        incomingInvites := [(''u1'', \<lparr>callUUID = ''u1'', isEnded = True\<rparr>)]\<rparr>\<rparr>"

text \<open>A transport closed by the network, and one closed on purpose (no code).\<close>

definition abnormal_closure :: disconnectedEvent where
  "abnormal_closure = \<lparr>code = Some 1006, ignoreReconnection = False\<rparr>"

definition intentional_stop :: disconnectedEvent where
  "intentional_stop = \<lparr>code = None, ignoreReconnection = True\<rparr>"

lemmas example_defs =
  example_constants_def example_client_def example_account_def new_Account_def
  disconnected_account_def connected_account_def on_call_account_def stale_call_account_def
  abnormal_closure_def intentional_stop_def

text \<open>A login with an access token in flight: login was called, nobody is logged in yet.\<close>

definition token_account :: account where
  "token_account =
     (new_Account example_client (Str ''alice'') Null (Some ''jwt'') 120 0)
       \<lparr>cs := example_client\<lparr>isAccessToken := True, isLoginCalled := True, phone := True,
                               accessToken := Some ''jwt''\<rparr>\<rparr>"

text \<open>Accounts made with an empty user name, and with the password \<open>null\<close>.\<close>

definition empty_userName_account :: account where
  "empty_userName_account = new_Account example_client (Str []) (Str ''secret'') None 120 0"

definition null_password_account :: account where
  "null_password_account = new_Account example_client (Str ''alice'') Null None 120 0"

section \<open>Properties\<close>

subsection \<open>A registration failure of a superseded attempt\<close>

text \<open>
  C9: when a \<open>registrationFailed\<close> event arrives while the connection state is
  DISCONNECTED and the client is still marked logged in, the handler returns without
  doing anything: the account (with the logged-in flag, the stored user name and password,
  the connection state and the keep-alive timer of its client) is the one it was given,
  and the handler makes no call at all, so no login-failed notification.
\<close>

theorem onRegistrationFailed_stale_ignored:
  assumes "state (connectionInfo (cs a)) = DISCONNECTED" and "isLoggedIn (cs a)"
  shows "onRegistrationFailed error a = ([], a)"
  using assms by (simp add: onRegistrationFailed_def)

theorem onRegistrationFailed_stale_ignored_witness:
  "state (connectionInfo (cs disconnected_account)) = DISCONNECTED
   \<and> isLoggedIn (cs disconnected_account)
   \<and> onRegistrationFailed \<lparr>cause = Some ''Rejected'', response = None\<rparr> disconnected_account
       = ([], disconnected_account)"
proof -
  have s: "state (connectionInfo (cs disconnected_account)) = DISCONNECTED"
    by (simp add: disconnected_account_def)
  have l: "isLoggedIn (cs disconnected_account)"
    by (simp add: disconnected_account_def)
  from onRegistrationFailed_stale_ignored [OF s l] s l show ?thesis by simp
qed

subsection \<open>The unregistered handler\<close>

text \<open>
  C10: every \<open>unregistered\<close> event emits exactly one \<open>onConnectionChange\<close> notification,
  carrying the connection information the client is left with, whatever the state was
  before (also when it was DISCONNECTED already and nothing changes). The connection
  information becomes DISCONNECTED with reason "unregistered" when the state before was
  CONNECTED or the initial empty state, and is left as it was otherwise.
\<close>

theorem onUnRegistered_emits_onConnectionChange:
  "filter is_onConnectionChange (fst (onUnRegistered now a))
     = [Emit_onConnectionChange (connectionInfo (cs (snd (onUnRegistered now a))))]
   \<and> connectionInfo (cs (snd (onUnRegistered now a)))
     = (if state (connectionInfo (cs a)) = Empty_state \<or> state (connectionInfo (cs a)) = CONNECTED
        then \<lparr>state = DISCONNECTED, reason = ''unregistered''\<rparr>
        else connectionInfo (cs a))"
  by (simp add: onUnRegistered_def Let_def is_onConnectionChange_def)

subsection \<open>The disconnected handler\<close>

lemma setupUAConfig_urlIndex:
  "urlIndex (snd (setupUAConfig C a))
     = (if urlIndex a \<ge> length (wsServers C (cs a)) then 0 else urlIndex a)"
  by (simp add: setupUAConfig_def Let_def)

lemma setupUAConfig_client:
  "connectionInfo (cs (snd (setupUAConfig C a))) = connectionInfo (cs a)"
  "loginCallback (cs (snd (setupUAConfig C a))) = loginCallback (cs a)"
  "wsServers C (cs (snd (setupUAConfig C a))) = wsServers C (cs a)"
  by (simp_all add: setupUAConfig_def Let_def wsServers_def)

text \<open>The account the handler leaves: the one after its first statements or, when it
  reconnects, that one with the cursor advanced and \<open>setupUAConfig\<close> run on it.\<close>

lemma onDisconnected_account:
  "snd (snd (onDisconnected C evt a))
     = (let c1 = (case code evt of
                    None \<Rightarrow> cs a
                  | Some n \<Rightarrow>
                      if n = 0 then cs a
                      else (cs a)\<lparr>connectionInfo := \<lparr>state = DISCONNECTED, reason = toString n\<rparr>\<rparr>);
            a2 = a\<lparr>cs := c1\<lparr>loginCallback := None\<rparr>, isPlivoSocketConnected := False\<rparr>
        in if ignoreReconnection evt then a2
           else snd (setupUAConfig C (a2\<lparr>urlIndex := urlIndex a + 1\<rparr>)))"
  by (simp add: onDisconnected_def Let_def split_beta split: sum.split)

lemma sendReInvite_no_callback: "filter is_loginCallback_call (sendReInvite a) = []"
  by (simp add: sendReInvite_def is_loginCallback_call_def)

lemma onDisconnected_callback_calls:
  "filter is_loginCallback_call (fst (snd (onDisconnected C evt a)))
     = (case loginCallback (cs a) of None \<Rightarrow> [] | Some cb \<Rightarrow> [Invoke_loginCallback cb])"
proof -
  have cb: "loginCallback (case code evt of
                    None \<Rightarrow> cs a
                  | Some n \<Rightarrow>
                      if n = 0 then cs a
                      else (cs a)\<lparr>connectionInfo := \<lparr>state = DISCONNECTED, reason = toString n\<rparr>\<rparr>)
            = loginCallback (cs a)"
    by (simp split: option.split)
  have e1: "filter is_loginCallback_call
              (case loginCallback (cs a) of None \<Rightarrow> [] | Some cb \<Rightarrow> [Invoke_loginCallback cb])
            = (case loginCallback (cs a) of None \<Rightarrow> [] | Some cb \<Rightarrow> [Invoke_loginCallback cb])"
    by (simp add: is_loginCallback_call_def split: option.split)
  show ?thesis
    by (simp add: onDisconnected_def Let_def split_beta cb e1 sendReInvite_no_callback
          is_loginCallback_call_def split: sum.split)
qed

lemma wsServers_onDisconnected:
  "wsServers C (cs (snd (snd (onDisconnected C evt a)))) = wsServers C (cs a)"
proof -
  have "\<And>c. wsServers C (c\<lparr>loginCallback := None\<rparr>) = wsServers C c"
    by (simp add: wsServers_def)
  moreover have "wsServers C (case code evt of
                    None \<Rightarrow> cs a
                  | Some n \<Rightarrow>
                      if n = 0 then cs a
                      else (cs a)\<lparr>connectionInfo := \<lparr>state = DISCONNECTED, reason = toString n\<rparr>\<rparr>)
            = wsServers C (cs a)"
    by (simp add: wsServers_def split: option.split)
  ultimately show ?thesis
    by (simp add: onDisconnected_account Let_def setupUAConfig_client)
qed

text \<open>
  C8, as amended: a \<open>disconnected\<close> event that carries a disconnect code other than 0
  leaves the connection information DISCONNECTED with that code, in decimal, as the
  reason; an event without a code leaves the connection information as it was. In every
  case a queued pending-login callback is called exactly once and the queue is empty
  afterwards (and nothing is called when none was queued).
\<close>

theorem onDisconnected_code_and_callback:
  "connectionInfo (cs (snd (snd (onDisconnected C evt a))))
     = (case code evt of
          None \<Rightarrow> connectionInfo (cs a)
        | Some n \<Rightarrow> if n = 0 then connectionInfo (cs a)
                    else \<lparr>state = DISCONNECTED, reason = toString n\<rparr>)
   \<and> filter is_loginCallback_call (fst (snd (onDisconnected C evt a)))
     = (case loginCallback (cs a) of None \<Rightarrow> [] | Some cb \<Rightarrow> [Invoke_loginCallback cb])
   \<and> loginCallback (cs (snd (snd (onDisconnected C evt a)))) = None"
proof -
  have info: "connectionInfo (cs (snd (snd (onDisconnected C evt a))))
     = (case code evt of
          None \<Rightarrow> connectionInfo (cs a)
        | Some n \<Rightarrow> if n = 0 then connectionInfo (cs a)
                    else \<lparr>state = DISCONNECTED, reason = toString n\<rparr>)"
    by (simp add: onDisconnected_account Let_def setupUAConfig_client split: option.split)
  have cleared: "loginCallback (cs (snd (snd (onDisconnected C evt a)))) = None"
    by (simp add: onDisconnected_account Let_def setupUAConfig_client)
  from info onDisconnected_callback_calls [of C evt a] cleared show ?thesis by simp
qed

text \<open>
  The event of an intentional stop has no code: a client that was CONNECTED is still
  recorded as CONNECTED after the handler.
\<close>

theorem onDisconnected_without_code_counterexample:
  "state (connectionInfo (cs (snd (snd (onDisconnected example_constants
      intentional_stop connected_account))))) \<noteq> DISCONNECTED"
  by (simp add: onDisconnected_def Let_def example_defs)

text \<open>
  What the handler does to the cursor, whatever its value: \<open>urlIndex += 1\<close>, then the
  reset of \<open>setupUAConfig\<close>.
\<close>

lemma onDisconnected_cursor_step:
  "\<not> ignoreReconnection evt \<Longrightarrow>
   urlIndex (snd (snd (onDisconnected C evt a)))
     = (if urlIndex a + 1 \<ge> length (wsServers C (cs a)) then 0 else urlIndex a + 1)"
proof -
  have ws: "\<And>c. wsServers C (c\<lparr>loginCallback := None\<rparr>) = wsServers C c"
    by (simp add: wsServers_def)
  have ws2: "wsServers C (case code evt of
                    None \<Rightarrow> cs a
                  | Some n \<Rightarrow>
                      if n = 0 then cs a
                      else (cs a)\<lparr>connectionInfo := \<lparr>state = DISCONNECTED, reason = toString n\<rparr>\<rparr>)
            = wsServers C (cs a)"
    by (simp add: wsServers_def split: option.split)
  assume "\<not> ignoreReconnection evt"
  then show ?thesis
    by (simp add: onDisconnected_account Let_def setupUAConfig_urlIndex ws ws2)
qed

text \<open>
  C2: a \<open>disconnected\<close> event that is not flagged "ignore reconnection" moves the
  endpoint cursor, which points into the endpoint list, to
  \<open>(cursor + 1) mod length endpoints\<close>; the cursor points into the list again afterwards.
\<close>

theorem onDisconnected_advances_cursor:
  assumes "\<not> ignoreReconnection evt"
    and "urlIndex a < length (wsServers C (cs a))"
  shows "urlIndex (snd (snd (onDisconnected C evt a)))
           = (urlIndex a + 1) mod length (wsServers C (cs a))
         \<and> urlIndex (snd (snd (onDisconnected C evt a))) < length (wsServers C (cs a))"
proof (cases "urlIndex a + 1 \<ge> length (wsServers C (cs a))")
  case True
  with assms(2) have "urlIndex a + 1 = length (wsServers C (cs a))" by simp
  with onDisconnected_cursor_step [OF assms(1), of C a] True assms(2) show ?thesis by auto
next
  case False
  with onDisconnected_cursor_step [OF assms(1), of C a] show ?thesis by simp
qed

text \<open>With the endpoints w0, w1, w2 and the cursor at 0, two such events leave it at 2.\<close>

theorem onDisconnected_advances_cursor_witness:
  "\<not> ignoreReconnection abnormal_closure
   \<and> urlIndex connected_account < length (wsServers example_constants (cs connected_account))
   \<and> urlIndex (snd (snd (onDisconnected example_constants abnormal_closure connected_account))) = 1
   \<and> urlIndex (snd (snd (onDisconnected example_constants abnormal_closure
        (snd (snd (onDisconnected example_constants abnormal_closure connected_account)))))) = 2"
proof -
  let ?a1 = "snd (snd (onDisconnected example_constants abnormal_closure connected_account))"
  have ws: "wsServers example_constants (cs connected_account) = [''w0'', ''w1'', ''w2'']"
    by (simp add: wsServers_def example_defs)
  have i0: "urlIndex connected_account = 0"
    by (simp add: example_defs)
  have ne: "\<not> ignoreReconnection abnormal_closure"
    by (simp add: abnormal_closure_def)
  have h0: "urlIndex connected_account < length (wsServers example_constants (cs connected_account))"
    using ws i0 by simp
  from onDisconnected_advances_cursor [OF ne h0] ws i0
  have s1: "urlIndex ?a1 = 1" by simp
  have ws1: "wsServers example_constants (cs ?a1) = [''w0'', ''w1'', ''w2'']"
    using wsServers_onDisconnected [of example_constants abnormal_closure connected_account] ws
    by simp
  have h1: "urlIndex ?a1 < length (wsServers example_constants (cs ?a1))"
    using s1 ws1 by simp
  from onDisconnected_advances_cursor [OF ne h1] ws1 s1
  have s2: "urlIndex (snd (snd (onDisconnected example_constants abnormal_closure ?a1))) = 2"
    by simp
  from ne h0 s1 s2 show ?thesis by simp
qed

subsection \<open>Admission of a new RTC session\<close>

lemma delete_invite_absent: "key \<notin> fst ` set m \<Longrightarrow> delete_invite key m = m"
  by (induction m) (auto simp: delete_invite_def)

lemma forEach_delete_ended_wf:
  "invites_wf (visited @ rest) \<Longrightarrow>
   forEach_delete_ended visited rest = visited @ filter (\<lambda>(k, v). \<not> isEnded v) rest"
proof (induction visited rest rule: forEach_delete_ended.induct)
  case (1 visited)
  then show ?case by simp
next
  case (2 visited k invite rest)
  from "2.prems" have key: "k = callUUID invite"
    and nv: "k \<notin> fst ` set visited" and nr: "k \<notin> fst ` set rest"
    and wf': "invites_wf ((visited @ [(k, invite)]) @ rest)"
    and wf'': "invites_wf (visited @ rest)"
    by (auto simp: invites_wf_def)
  show ?case
  proof (cases "isEnded invite")
    case True
    have d1: "delete_invite (callUUID invite) (visited @ [(k, invite)]) = visited"
      using key nv delete_invite_absent [of k visited] by (simp add: delete_invite_def)
    have d2: "delete_invite (callUUID invite) rest = rest"
      using key nr delete_invite_absent [of k rest] by simp
    from "2.IH"(1) [OF True] wf'' d1 d2 True show ?thesis by simp
  next
    case False
    from "2.IH"(2) [OF False wf'] False show ?thesis by simp
  qed
qed

lemma purge_ended_invites_wf:
  "invites_wf (incomingInvites c) \<Longrightarrow>
   incomingInvites (purge_ended_invites c) = pending_invites c"
  using forEach_delete_ended_wf [of "[]" "incomingInvites c"]
  by (cases "incomingInvites c") (auto simp: purge_ended_invites_def pending_invites_def)

lemma purge_ended_invites_other:
  "currentSession (purge_ended_invites c) = currentSession c"
  "allowMultipleIncomingCalls (purge_ended_invites c) = allowMultipleIncomingCalls c"
  "callSession_ref (purge_ended_invites c) = callSession_ref c"
  "client_callUUID (purge_ended_invites c) = client_callUUID c"
  "callDirection (purge_ended_invites c) = callDirection c"
  by (simp_all add: purge_ended_invites_def)

lemma clear_stale_session_fields:
  "currentSession (clear_stale_session c) = (if stale c then None else currentSession c)"
  "incomingInvites (clear_stale_session c) = incomingInvites c"
  "allowMultipleIncomingCalls (clear_stale_session c) = allowMultipleIncomingCalls c"
  by (simp_all add: clear_stale_session_def)

lemma busy_after_cleanup:
  assumes "invites_wf (incomingInvites c)"
  shows "busy C (purge_ended_invites (clear_stale_session c)) = must_reject C c"
proof -
  have "invites_wf (incomingInvites (clear_stale_session c))"
    using assms by (simp add: clear_stale_session_fields)
  from purge_ended_invites_wf [OF this]
  have inv: "incomingInvites (purge_ended_invites (clear_stale_session c)) = pending_invites c"
    by (simp add: pending_invites_def clear_stale_session_fields)
  show ?thesis
    by (simp add: busy_def must_reject_def inv purge_ended_invites_other
          clear_stale_session_fields primary_session_exists_def)
qed

lemma validateRTCSession_cs:
  "cs (snd (snd (validateRTCSession C a))) = purge_ended_invites (clear_stale_session (cs a))"
  by (simp add: validateRTCSession_def Let_def)

lemma validateRTCSession_fst:
  "fst (validateRTCSession C a) = (\<not> busy C (purge_ended_invites (clear_stale_session (cs a))))"
  by (simp add: validateRTCSession_def Let_def)

text \<open>
  C7: before the admission decision is taken, a primary session whose connection has
  signaling state "closed" is dropped together with the call identifiers kept beside it,
  and every pending invite whose session has ended is removed from the map of invites
  (a map in which every invite is stored under its own call identifier). The decision is
  taken on the client so cleaned, and with a stale primary session it is the decision that
  would be taken with no primary session at all.
\<close>

theorem stale_state_cleared_before_admission:
  assumes "invites_wf (incomingInvites (cs a))"
  shows "(stale (cs a) \<longrightarrow>
            currentSession (cs (snd (snd (validateRTCSession C a)))) = None
          \<and> callSession_ref (cs (snd (snd (validateRTCSession C a)))) = None
          \<and> client_callUUID (cs (snd (snd (validateRTCSession C a)))) = None
          \<and> callDirection (cs (snd (snd (validateRTCSession C a)))) = None)
       \<and> incomingInvites (cs (snd (snd (validateRTCSession C a))))
           = filter (\<lambda>(k, v). \<not> isEnded v) (incomingInvites (cs a))
       \<and> fst (validateRTCSession C a) = (\<not> busy C (cs (snd (snd (validateRTCSession C a)))))
       \<and> (stale (cs a) \<longrightarrow>
            fst (validateRTCSession C a)
              = fst (validateRTCSession C (a\<lparr>cs := (cs a)\<lparr>currentSession := None\<rparr>\<rparr>)))"
proof -
  let ?c' = "cs (snd (snd (validateRTCSession C a)))"
  have wf1: "invites_wf (incomingInvites (clear_stale_session (cs a)))"
    using assms by (simp add: clear_stale_session_fields)
  have cleared: "stale (cs a) \<longrightarrow> currentSession ?c' = None \<and> callSession_ref ?c' = None
      \<and> client_callUUID ?c' = None \<and> callDirection ?c' = None"
    by (simp add: validateRTCSession_cs purge_ended_invites_other clear_stale_session_def)
  have purged: "incomingInvites ?c' = filter (\<lambda>(k, v). \<not> isEnded v) (incomingInvites (cs a))"
    using purge_ended_invites_wf [OF wf1]
    by (simp add: validateRTCSession_cs pending_invites_def clear_stale_session_fields)
  have decision: "fst (validateRTCSession C a) = (\<not> busy C ?c')"
    by (simp add: validateRTCSession_cs validateRTCSession_fst)
  have wf2: "invites_wf (incomingInvites ((cs a)\<lparr>currentSession := None\<rparr>))"
    using assms by simp
  have same: "stale (cs a) \<longrightarrow> must_reject C (cs a) = must_reject C ((cs a)\<lparr>currentSession := None\<rparr>)"
    by (simp add: must_reject_def primary_session_exists_def pending_invites_def stale_def)
  have solely: "stale (cs a) \<longrightarrow>
      fst (validateRTCSession C a) = fst (validateRTCSession C (a\<lparr>cs := (cs a)\<lparr>currentSession := None\<rparr>\<rparr>))"
    using same busy_after_cleanup [OF assms, of C] busy_after_cleanup [OF wf2, of C]
    by (simp add: validateRTCSession_fst)
  from cleared purged decision solely show ?thesis by blast
qed

theorem stale_state_cleared_before_admission_witness:
  "invites_wf (incomingInvites (cs stale_call_account))
   \<and> stale (cs stale_call_account)
   \<and> fst (validateRTCSession example_constants stale_call_account) = True
   \<and> currentSession (cs (snd (snd (validateRTCSession example_constants stale_call_account)))) = None
   \<and> incomingInvites (cs (snd (snd (validateRTCSession example_constants stale_call_account)))) = []"
proof -
  have wf: "invites_wf (incomingInvites (cs stale_call_account))"
    by (simp add: invites_wf_def example_defs)
  have st: "stale (cs stale_call_account)"
    by (simp add: stale_def example_defs)
  have inv: "filter (\<lambda>(k, v). \<not> isEnded v) (incomingInvites (cs stale_call_account)) = []"
    by (simp add: example_defs)
  have al: "\<not> allowMultipleIncomingCalls (cs (snd (snd (validateRTCSession example_constants stale_call_account))))"
    by (simp add: validateRTCSession_cs purge_ended_invites_other clear_stale_session_fields example_defs)
  have ce: "NUMBER_OF_SIMULTANEOUS_INCOMING_CALLS_ALLOWED example_constants = 2"
    by (simp add: example_constants_def)
  from stale_state_cleared_before_admission [OF wf, of example_constants] st inv al ce wf
  show ?thesis by (simp add: busy_def)
qed

text \<open>
  C1: on a new RTC session event the handler first drops a stale primary session and the
  ended invites; a primary session or a pending invite "exists" when it is still there
  after that. If (a primary session or any pending invite exists and multiplexing is
  disabled) or the number of pending invites is at or above the ceiling, the offered
  session is terminated with status code 486 and reason phrase "Busy Here" and no session
  object is created. Otherwise exactly one session object is created, an inbound one for a
  remote originator and an outbound one for a local originator, and nothing is terminated.
\<close>

theorem admission_decision:
  assumes "invites_wf (incomingInvites (cs a))"
  shows "if must_reject C (cs a)
         then Session_terminate 486 ''Busy Here'' \<in> set (fst (onNewRTCSession C now evt a))
              \<and> filter creates_session (fst (onNewRTCSession C now evt a)) = []
         else filter creates_session (fst (onNewRTCSession C now evt a))
                = [case originator evt of Remote \<Rightarrow> CreateIncomingSession | Local \<Rightarrow> CreateOutgoingSession]
              \<and> Session_terminate 486 ''Busy Here'' \<notin> set (fst (onNewRTCSession C now evt a))"
  using busy_after_cleanup [OF assms, of C]
  by (cases "originator evt")
     (simp_all add: onNewRTCSession_def validateRTCSession_def Let_def creates_session_def)

text \<open>A primary session is active and multiplexing is disabled: the new request is
  answered with 486.\<close>

theorem admission_decision_witness:
  "invites_wf (incomingInvites (cs on_call_account))
   \<and> must_reject example_constants (cs on_call_account)
   \<and> Session_terminate 486 ''Busy Here''
        \<in> set (fst (onNewRTCSession example_constants 0 \<lparr>originator = Remote, call_id = ''x''\<rparr> on_call_account))
   \<and> filter creates_session
        (fst (onNewRTCSession example_constants 0 \<lparr>originator = Remote, call_id = ''x''\<rparr> on_call_account)) = []"
proof -
  have wf: "invites_wf (incomingInvites (cs on_call_account))"
    by (simp add: invites_wf_def example_defs)
  have rej: "must_reject example_constants (cs on_call_account)"
    by (simp add: must_reject_def primary_session_exists_def stale_def pending_invites_def example_defs)
  from admission_decision [OF wf, of example_constants 0 "\<lparr>originator = Remote, call_id = ''x''\<rparr>"] rej wf
  show ?thesis by simp
qed

subsection \<open>The login notification\<close>




















subsection \<open>The expiry of the access token\<close>

lemma split_on_first:
  "\<exists>ws. split_on c xs = takeWhile (\<lambda>x. x \<noteq> c) xs # ws"
  by (induction xs) auto

lemma split_on_second:
  "index (split_on c xs) 1
     = (if c \<in> set xs
        then Some (takeWhile (\<lambda>x. x \<noteq> c) (tl (dropWhile (\<lambda>x. x \<noteq> c) xs)))
        else None)"
proof (induction xs)
  case Nil
  then show ?case by simp
next
  case (Cons x xs)
  obtain ws where first: "split_on c xs = takeWhile (\<lambda>x. x \<noteq> c) xs # ws"
    using split_on_first [of c xs] by blast
  show ?case
  proof (cases "x = c")
    case True
    with first show ?thesis by simp
  next
    case False
    with first Cons.IH show ?thesis by simp
  qed
qed

text \<open>What the code reads is the value of the pair in the first segment, for every raw text.\<close>

lemma expiryTimeInEpoch_value_of_pair:
  "expiryTimeInEpoch raw = value_of_pair (first_segment raw)"
proof -
  obtain ws where "split_on CHR '';'' raw = first_segment raw # ws"
    using split_on_first [of "CHR '';''" raw] by (auto simp: first_segment_def)
  then show ?thesis
    using split_on_second [of "CHR ''=''" "first_segment raw"]
    by (simp add: expiryTimeInEpoch_def value_of_pair_def)
qed

text \<open>A segment \<open>key=value\<close>, followed by nothing, by \<open>;\<close> or by a further \<open>=\<close>.\<close>

lemma value_of_pair_key_value:
  assumes "CHR '';'' \<notin> set key" and "CHR ''='' \<notin> set key"
    and "CHR '';'' \<notin> set v" and "CHR ''='' \<notin> set v"
    and "rest = [] \<or> (\<exists>t. rest = CHR '';'' # t)"
  shows "value_of_pair (first_segment (key @ ''='' @ v @ rest)) = Some v"
proof -
  let ?segment = "key @ CHR ''='' # v"
  have inside: "\<And>x. x \<in> set ?segment \<Longrightarrow> x \<noteq> CHR '';''"
    using assms(1,3) by fastforce
  have after: "takeWhile (\<lambda>c. c \<noteq> CHR '';'') rest = []"
    using assms(5) by fastforce
  have "takeWhile (\<lambda>c. c \<noteq> CHR '';'') (?segment @ rest)
          = ?segment @ takeWhile (\<lambda>c. c \<noteq> CHR '';'') rest"
    using inside by (rule takeWhile_append2)
  then have seg: "first_segment (key @ ''='' @ v @ rest) = ?segment"
    by (simp add: first_segment_def after)
  have "dropWhile (\<lambda>c. c \<noteq> CHR ''='') key = []"
    using assms(2) by (fastforce simp: dropWhile_eq_Nil_conv)
  then have tail: "dropWhile (\<lambda>c. c \<noteq> CHR ''='') ?segment = CHR ''='' # v"
    by (simp add: dropWhile_append3)
  have val: "takeWhile (\<lambda>c. c \<noteq> CHR ''='') v = v"
    using assms(4) by (fastforce simp: takeWhile_eq_all_conv)
  show ?thesis
    unfolding seg by (simp add: value_of_pair_def tail val)
qed

lemma ToNumber_digits:
  assumes "list_all is_digit (trim v)" and "decimal_value (trim v) * 1000 \<le> 2 ^ 53"
  shows "times_1000 (ToNumber (Some v)) = Num (int (decimal_value (trim v)) * 1000)"
proof -
  have small: "decimal_value (trim v) \<le> 2 ^ 53" using assms(2) by simp
  have empty: "trim v = [] \<Longrightarrow> decimal_value (trim v) = 0" by (simp add: decimal_value_def)
  have n: "ToNumber (Some v) = Num (int (decimal_value (trim v)))"
    using assms(1) small empty by (simp add: ToNumber_def Let_def)
  have "int (decimal_value (trim v)) * 1000 \<le> 2 ^ 53"
    using assms(2) by (metis (mono_tags) of_nat_le_iff of_nat_mult of_nat_numeral of_nat_power)
  then show ?thesis
    by (simp add: n times_1000_def)
qed

lemma filter_setExpiry_login: "filter is_setExpiry (fst (onRegistered_login C a)) = []"
  by (simp add: onRegistered_login_def Let_def is_setExpiry_def)

lemma filter_setExpiry_jwt:
  "filter is_setExpiry
     (case h of None \<Rightarrow> [] | Some raw \<Rightarrow> if b then [SetExpiryTimeInEpoch (f raw)] else [])
   = (case h of None \<Rightarrow> [] | Some raw \<Rightarrow> if b then [SetExpiryTimeInEpoch (f raw)] else [])"
  by (simp add: is_setExpiry_def split: option.split)

lemma filter_setExpiry_Cons:
  "filter is_setExpiry (e # es) = (if is_setExpiry e then [e] else []) @ filter is_setExpiry es"
  by simp

lemma onRegistered_setExpiry:
  "filter is_setExpiry (fst (onRegistered C now res a))
     = (case X_Plivo_Jwt res of
          None \<Rightarrow> []
        | Some raw \<Rightarrow> if isAccessToken (cs a) then [SetExpiryTimeInEpoch (jwt_expiry raw)] else [])"
proof (cases "\<not> isLoggedIn (cs a) \<and> \<not> isLoginCalled (cs a)")
  case True
  show ?thesis
  proof (cases "currentSession (cs a) = None")
    case None: True
    from True None show ?thesis
      by (simp add: onRegistered_def Let_def filter_setExpiry_jwt is_setExpiry_def
            cong: option.case_cong)
  next
    case False
    from True False show ?thesis
      by (simp add: onRegistered_def Let_def split_beta filter_setExpiry_login
            filter_setExpiry_jwt tiggerNetworkChangeEvent_def is_setExpiry_def
            cong: option.case_cong)
  qed
next
  case False
  then show ?thesis
    by (simp add: onRegistered_def Let_def split_beta filter_setExpiry_login
          filter_setExpiry_jwt is_setExpiry_def tiggerNetworkChangeEvent_def
          cong: option.case_cong)
qed

text \<open>
  C6, as amended: when a registration response in access-token mode carries the
  token-expiry header, one expiry is stored, and it is 1000 times the number that the
  value of the \<open>key=value\<close> pair in the first \<open>;\<close>-delimited segment of the header's
  raw text converts to. Where that value is written in decimal digits (white space around
  them aside) and its product with 1000 is at most \<open>2^53\<close>, the stored expiry is the
  value (seconds) multiplied by 1000 (milliseconds). Where the first segment has no
  \<open>=\<close>, there is no value and the stored expiry is \<open>NaN\<close>.
\<close>

theorem registered_stores_expiry_of_first_segment:
  assumes "isAccessToken (cs a)"
  shows "filter is_setExpiry (fst (onRegistered C now \<lparr>X_Plivo_Jwt = Some raw\<rparr> a))
           = [SetExpiryTimeInEpoch (times_1000 (ToNumber (value_of_pair (first_segment raw))))]
         \<and> (\<forall>v. value_of_pair (first_segment raw) = Some v
                  \<and> list_all is_digit (trim v) \<and> decimal_value (trim v) * 1000 \<le> 2 ^ 53
               \<longrightarrow> filter is_setExpiry (fst (onRegistered C now \<lparr>X_Plivo_Jwt = Some raw\<rparr> a))
                     = [SetExpiryTimeInEpoch (Num (int (decimal_value (trim v)) * 1000))])
         \<and> (CHR ''='' \<notin> set (first_segment raw)
               \<longrightarrow> filter is_setExpiry (fst (onRegistered C now \<lparr>X_Plivo_Jwt = Some raw\<rparr> a))
                     = [SetExpiryTimeInEpoch NaN])"
proof -
  have stored: "filter is_setExpiry (fst (onRegistered C now \<lparr>X_Plivo_Jwt = Some raw\<rparr> a))
      = [SetExpiryTimeInEpoch (times_1000 (ToNumber (value_of_pair (first_segment raw))))]"
    using assms
    by (simp add: onRegistered_setExpiry jwt_expiry_def expiryTimeInEpoch_value_of_pair)
  have digits: "\<forall>v. value_of_pair (first_segment raw) = Some v
                  \<and> list_all is_digit (trim v) \<and> decimal_value (trim v) * 1000 \<le> 2 ^ 53
               \<longrightarrow> times_1000 (ToNumber (value_of_pair (first_segment raw)))
                     = Num (int (decimal_value (trim v)) * 1000)"
    using ToNumber_digits by simp
  have none: "CHR ''='' \<notin> set (first_segment raw)
               \<longrightarrow> times_1000 (ToNumber (value_of_pair (first_segment raw))) = NaN"
    by (simp add: value_of_pair_def ToNumber_def times_1000_def)
  from stored digits none show ?thesis by simp
qed

text \<open>
  For the header value \<open>exp=1700000000; abc\<close> the expiry stored is 1700000000000; for
  \<open>abc; exp=1700000000\<close> the first segment is \<open>abc\<close> and the expiry stored is
  \<open>NaN\<close>.
\<close>

theorem registered_stores_expiry_of_first_segment_witness:
  "isAccessToken (cs token_account)
   \<and> value_of_pair (first_segment ''exp=1700000000; abc'') = Some ''1700000000''
   \<and> list_all is_digit (trim ''1700000000'')
   \<and> decimal_value (trim ''1700000000'') * 1000 \<le> 2 ^ 53
   \<and> filter is_setExpiry
        (fst (onRegistered example_constants 0 \<lparr>X_Plivo_Jwt = Some ''exp=1700000000; abc''\<rparr> token_account))
      = [SetExpiryTimeInEpoch (Num 1700000000000)]
   \<and> CHR ''='' \<notin> set (first_segment ''abc; exp=1700000000'')
   \<and> filter is_setExpiry
        (fst (onRegistered example_constants 0 \<lparr>X_Plivo_Jwt = Some ''abc; exp=1700000000''\<rparr> token_account))
      = [SetExpiryTimeInEpoch NaN]"
proof -
  have t: "isAccessToken (cs token_account)"
    by (simp add: token_account_def)
  have p: "value_of_pair (first_segment ''exp=1700000000; abc'') = Some ''1700000000''"
    by (simp add: value_of_pair_def first_segment_def)
  have tr: "trim ''1700000000'' = ''1700000000''"
    by (simp add: trim_def is_white_space_def)
  have d: "list_all is_digit (trim ''1700000000'')"
    unfolding tr by (simp add: is_digit_def)
  have v: "decimal_value (trim ''1700000000'') = 1700000000"
    unfolding tr by (simp add: decimal_value_def)
  have b: "decimal_value (trim ''1700000000'') * 1000 \<le> 2 ^ 53"
    unfolding v by simp
  have n: "int (decimal_value (trim ''1700000000'')) * 1000 = 1700000000000"
    unfolding v by simp
  have q: "CHR ''='' \<notin> set (first_segment ''abc; exp=1700000000'')"
    by (simp add: first_segment_def)
  note first = registered_stores_expiry_of_first_segment
    [OF t, of example_constants 0 "''exp=1700000000; abc''"]
  note second = registered_stores_expiry_of_first_segment
    [OF t, of example_constants 0 "''abc; exp=1700000000''"]
  have s1: "filter is_setExpiry
        (fst (onRegistered example_constants 0 \<lparr>X_Plivo_Jwt = Some ''exp=1700000000; abc''\<rparr> token_account))
      = [SetExpiryTimeInEpoch (Num 1700000000000)]"
    using first p d b unfolding n [symmetric] by blast
  have s2: "filter is_setExpiry
        (fst (onRegistered example_constants 0 \<lparr>X_Plivo_Jwt = Some ''abc; exp=1700000000''\<rparr> token_account))
      = [SetExpiryTimeInEpoch NaN]"
    using second q by blast
  from t p d b s1 q s2 show ?thesis by (intro conjI)
qed

text \<open>
  The header value \<open>abc; exp=1700000000\<close> has its pair in the second segment: what is
  stored is \<open>NaN\<close>, not 1700000000000.
\<close>

theorem registered_expiry_scenario_counterexample:
  "filter is_setExpiry
     (fst (onRegistered example_constants 0 \<lparr>X_Plivo_Jwt = Some ''abc; exp=1700000000''\<rparr> token_account))
   = [SetExpiryTimeInEpoch NaN]
   \<and> filter is_setExpiry
     (fst (onRegistered example_constants 0 \<lparr>X_Plivo_Jwt = Some ''abc; exp=1700000000''\<rparr> token_account))
   \<noteq> [SetExpiryTimeInEpoch (Num 1700000000000)]"
proof -
  have e: "jwt_expiry ''abc; exp=1700000000'' = NaN"
    by (simp add: jwt_expiry_def expiryTimeInEpoch_def ToNumber_def times_1000_def)
  have t: "isAccessToken (cs token_account)"
    by (simp add: token_account_def)
  have f: "filter is_setExpiry
        (fst (onRegistered example_constants 0 \<lparr>X_Plivo_Jwt = Some ''abc; exp=1700000000''\<rparr> token_account))
      = [SetExpiryTimeInEpoch NaN]"
    using t by (simp add: onRegistered_setExpiry e)
  show ?thesis by (simp only: f) simp
qed

subsection \<open>Login validation\<close>

text \<open>
  C3 says that validation fails, with an \<open>onLoginFailed\<close> notification, whenever the
  credentials are null, undefined or empty. The code tests for the empty string only under
  \<open>password === null\<close>: with an empty user name and a password that is a string, no
  call in progress and the platform online, validation returns true and emits nothing.
\<close>

theorem validate_accepts_empty_userName:
  "validate cb True empty_userName_account = Inr (Returns_true, [], empty_userName_account)"
  by (simp add: validate_def credentials_rejected_def empty_userName_account_def
        new_Account_def example_client_def)

lemma validate_throws_on_null_password:
  "validate cb onLine null_password_account = Inl TypeError"
  by (simp add: validate_def credentials_rejected_def null_password_account_def new_Account_def)

lemma validate_accepts_empty_password:
  "validate cb True (new_Account example_client (Str ''alice'') (Str []) None 120 0)
     = Inr (Returns_true, [], new_Account example_client (Str ''alice'') (Str []) None 120 0)"
  by (simp add: validate_def credentials_rejected_def new_Account_def example_client_def)

lemma validate_false_iff_onLoginFailed:
  "validate cb onLine a = Inr (r, es, a') \<Longrightarrow>
   (r = Returns_false) = (filter is_onLoginFailed es \<noteq> []) \<and> (r = Returns_false \<longrightarrow> a' = a)"
  by (auto simp: validate_def is_onLoginFailed_def split: sum.splits if_splits bool.splits)

lemma validate_rejects_call_or_offline:
  "credentials_rejected (credentials_userName a) (credentials_password a) = Inr False \<Longrightarrow>
   currentSession (cs a) \<noteq> None \<or> \<not> onLine \<Longrightarrow>
   \<exists>text. validate cb onLine a = Inr (Returns_false, [Emit_onLoginFailed text], a)"
  by (auto simp: validate_def)

subsection \<open>The retry counter of the address resolution\<close>

lemma activation_resolved:
  "activation C (Resolved_string ip) a
     = ([FetchIPAddress, SendNetworkChangeEvent ip], a\<lparr>fetchIpCount := fetchIpCount a + 1\<rparr>, None)"
  by (simp add: activation_def tiggerNetworkChangeEvent_def tiggerNetworkChangeEvent_then_def)

lemma trigger_chain_resolved:
  "snd (trigger_chain C [Resolved_string ip] a) = a\<lparr>fetchIpCount := fetchIpCount a + 1\<rparr>"
  by (simp add: activation_resolved)

text \<open>
  C4 says that a successful resolution resets the retry counter and that the count never
  exceeds the ceiling. The success branch leaves the counter as the activation
  incremented it: after \<open>n\<close> triggers whose resolution succeeds at once the counter has
  grown by \<open>n\<close>, whatever the ceiling is.
\<close>

theorem fetchIpCount_kept_on_success:
  "fetchIpCount (snd (triggers C (replicate n [Resolved_string ip]) a)) = fetchIpCount a + n"
proof (induction n arbitrary: a)
  case 0
  then show ?case by simp
next
  case (Suc n)
  show ?case
    using Suc.IH [of "a\<lparr>fetchIpCount := fetchIpCount a + 1\<rparr>"]
    by (simp add: split_beta trigger_chain_resolved del: trigger_chain.simps)
qed

text \<open>
  Once the counter is at or above the ceiling, the test \<open>fetchIpCount !== ceiling\<close> of
  the next activation holds for good: every resolution without an address sets a timer
  for the next one. Within one trigger that starts below the ceiling the counter stays
  within it.
\<close>

lemma activation_failed_above_ceiling:
  "IP_ADDRESS_FETCH_RETRY_COUNT C \<le> fetchIpCount a \<Longrightarrow>
   activation C Resolved_other a
     = ([FetchIPAddress, SetTimeout_tiggerNetworkChangeEvent ((fetchIpCount a + 1) * 200)],
        a\<lparr>fetchIpCount := fetchIpCount a + 1\<rparr>, Some ((fetchIpCount a + 1) * 200))"
  by (simp add: activation_def tiggerNetworkChangeEvent_def tiggerNetworkChangeEvent_then_def)

lemma retries_unbounded_above_ceiling:
  "IP_ADDRESS_FETCH_RETRY_COUNT C \<le> fetchIpCount a \<Longrightarrow>
   fetchIpCount (snd (trigger_chain C (replicate k Resolved_other) a)) = fetchIpCount a + k + 1"
proof (induction k arbitrary: a)
  case 0
  then show ?case by (simp add: tiggerNetworkChangeEvent_def)
next
  case (Suc k)
  have "IP_ADDRESS_FETCH_RETRY_COUNT C \<le> fetchIpCount (a\<lparr>fetchIpCount := fetchIpCount a + 1\<rparr>)"
    using Suc.prems by simp
  from Suc.IH [OF this] Suc.prems show ?case
    by (simp add: activation_failed_above_ceiling split_beta)
qed

lemma chain_from_zero_bounded:
  "fetchIpCount a < IP_ADDRESS_FETCH_RETRY_COUNT C \<Longrightarrow>
   fetchIpCount (snd (trigger_chain C outcomes a)) \<le> IP_ADDRESS_FETCH_RETRY_COUNT C"
proof (induction outcomes arbitrary: a)
  case Nil
  then show ?case by (simp add: tiggerNetworkChangeEvent_def)
next
  case (Cons outcome outcomes)
  show ?case
  proof (cases outcome)
    case (Resolved_string ip)
    with Cons.prems show ?thesis by (simp add: activation_resolved)
  next
    case Resolved_other
    show ?thesis
    proof (cases "fetchIpCount a + 1 = IP_ADDRESS_FETCH_RETRY_COUNT C")
      case True
      with Resolved_other show ?thesis
        by (simp add: activation_def tiggerNetworkChangeEvent_def tiggerNetworkChangeEvent_then_def)
    next
      case False
      with Cons.prems have "fetchIpCount (a\<lparr>fetchIpCount := fetchIpCount a + 1\<rparr>) < IP_ADDRESS_FETCH_RETRY_COUNT C"
        by simp
      from Cons.IH [OF this] False Resolved_other show ?thesis
        by (simp add: activation_def tiggerNetworkChangeEvent_def tiggerNetworkChangeEvent_then_def
              split_beta)
    qed
  next
    case Rejected
    with Cons.prems show ?thesis
      by (simp add: activation_def tiggerNetworkChangeEvent_def tiggerNetworkChangeEvent_then_def)
  next
    case Unsettled
    with Cons.prems show ?thesis
      by (simp add: activation_def tiggerNetworkChangeEvent_def tiggerNetworkChangeEvent_then_def)
  qed
qed

end
